theory Spec2Isabelle
  imports Main "HOL-Library.AList"
begin

section \<open>Values of the language runtime\<close>

text \<open>
  The record client of \<^verbatim>\<open>src/BubbleDataType.ts\<close> checks what the remote service sends at
  run time (\<^verbatim>\<open>!res.data\<close>, \<^verbatim>\<open>!res.data.id\<close>, \<^verbatim>\<open>res.data?.response\<close>), so a response body is
  modelled as a dynamically typed value: what \<^verbatim>\<open>JSON.parse\<close> can produce, and
  \<^verbatim>\<open>undefined\<close>. Numbers are integers (record counts and cursors), text is a list of
  characters, and an object is the association list of its own enumerable properties in
  their order, where the first binding of a name is the property.
\<close>

datatype jsval =
    JUndefined
  | JNull
  | JBool bool
  | JNum int
  | JStr string
  | JArr "jsval list"
  | JObj "(string \<times> jsval) list"

text \<open>
  What the client can raise: \<^verbatim>\<open>new Error(message)\<close> of the file itself; the runtime's
  TypeError, tagged here with the name of the property involved (a property read of
  \<^verbatim>\<open>undefined\<close> or \<^verbatim>\<open>null\<close>, a property written that has a getter only, a \<^verbatim>\<open>toString\<close> that
  cannot be called); and a failure thrown by code outside the file (the HTTP transport,
  \<^verbatim>\<open>BubbleConfig.get\<close>), which the file never catches.
\<close>

datatype error =
    Error string
  | TypeError string
  | Thrown string

text \<open>Truthiness, as \<^verbatim>\<open>!v\<close>, \<^verbatim>\<open>v ? a : b\<close> and \<^verbatim>\<open>v || w\<close> test it.\<close>

fun truthy :: "jsval \<Rightarrow> bool" where
  "truthy JUndefined = False"
| "truthy JNull = False"
| "truthy (JBool b) = b"
| "truthy (JNum n) = (n \<noteq> 0)"
| "truthy (JStr s) = (s \<noteq> [])"
| "truthy (JArr xs) = True"
| "truthy (JObj fs) = True"

text \<open>Decimal digits of a number, for text conversion and for index property names.\<close>

definition digit :: "nat \<Rightarrow> char" where
  "digit d = ''0123456789'' ! d"

function show_nat :: "nat \<Rightarrow> string" where
  "show_nat n = (if n < 10 then [digit n] else show_nat (n div 10) @ [digit (n mod 10)])"
  by pat_completeness auto
termination
  by (relation "measure (\<lambda>n. n)") auto

declare show_nat.simps [simp del]

definition show_int :: "int \<Rightarrow> string" where
  "show_int i = (if i < 0 then ''-'' @ show_nat (nat (- i)) else show_nat (nat i))"

text \<open>
  \<^verbatim>\<open>v.k\<close> for the property names the file reads (\<^verbatim>\<open>response\<close>, \<^verbatim>\<open>results\<close>,
  \<^verbatim>\<open>remaining\<close>, \<^verbatim>\<open>status\<close>, \<^verbatim>\<open>id\<close>, \<^verbatim>\<open>_id\<close>, \<^verbatim>\<open>constraints\<close>, \<^verbatim>\<open>sort\<close>, \<^verbatim>\<open>sort_field\<close>,
  \<^verbatim>\<open>descending\<close>, \<^verbatim>\<open>cursor\<close>): none of them is an own property of an array, a string, a
  number or a boolean, and none is inherited from a built-in prototype. Reading a
  property of \<^verbatim>\<open>undefined\<close> or \<^verbatim>\<open>null\<close> raises.
\<close>

fun get_prop :: "jsval \<Rightarrow> string \<Rightarrow> error + jsval" where
  "get_prop JUndefined k = Inl (TypeError k)"
| "get_prop JNull k = Inl (TypeError k)"
| "get_prop (JObj fs) k = Inr (case map_of fs k of None \<Rightarrow> JUndefined | Some v \<Rightarrow> v)"
| "get_prop v k = Inr JUndefined"

text \<open>\<^verbatim>\<open>v?.k\<close>: \<^verbatim>\<open>undefined\<close> where \<^verbatim>\<open>v.k\<close> would raise.\<close>

definition opt_chain :: "jsval \<Rightarrow> string \<Rightarrow> jsval" where
  "opt_chain v k = (case get_prop v k of Inl e \<Rightarrow> JUndefined | Inr x \<Rightarrow> x)"

text \<open>\<^verbatim>\<open>v[i]\<close> for an index \<^verbatim>\<open>i\<close>.\<close>

fun get_index :: "jsval \<Rightarrow> nat \<Rightarrow> error + jsval" where
  "get_index JUndefined i = Inl (TypeError (show_nat i))"
| "get_index JNull i = Inl (TypeError (show_nat i))"
| "get_index (JArr xs) i = Inr (if i < length xs then xs ! i else JUndefined)"
| "get_index (JStr s) i = Inr (if i < length s then JStr [s ! i] else JUndefined)"
| "get_index (JObj fs) i =
     Inr (case map_of fs (show_nat i) of None \<Rightarrow> JUndefined | Some v \<Rightarrow> v)"
| "get_index v i = Inr JUndefined"

text \<open>
  The own enumerable properties of a value, in order, each name once: what
  \<^verbatim>\<open>Object.assign\<close> reads from a source and what the spread \<^verbatim>\<open>{...v}\<close> copies.
\<close>

fun own_props :: "jsval \<Rightarrow> (string \<times> jsval) list" where
  "own_props (JObj fs) = AList.clearjunk fs"
| "own_props (JArr xs) = zip (map show_nat [0..<length xs]) xs"
| "own_props (JStr s) = zip (map show_nat [0..<length s]) (map (\<lambda>c. JStr [c]) s)"
| "own_props v = []"

text \<open>
  Text conversion, as a template literal \<^verbatim>\<open>`${v}`\<close> does it. A value parsed from JSON
  has no callable member, so an object with an own \<^verbatim>\<open>toString\<close> member has nothing the
  conversion could call, and the conversion raises; any other object is
  \<^verbatim>\<open>[object Object]\<close>. An array joins the texts of its elements with commas, \<^verbatim>\<open>undefined\<close>
  and \<^verbatim>\<open>null\<close> elements giving the empty text, and raises where the first of its elements
  does. An integer up to \<^verbatim>\<open>2^53\<close> in magnitude prints its digits; beyond, the runtime
  prints the digits it rounds to, in exponent form from \<^verbatim>\<open>1e21\<close> on: that text is the
  parameter \<^verbatim>\<open>nt\<close>.
\<close>

fun join :: "(error + string) list \<Rightarrow> error + string" where
  "join [] = Inr []"
| "join [r] = r"
| "join (r # r' # rs) =
     (case r of
        Inl e \<Rightarrow> Inl e
      | Inr s \<Rightarrow> (case join (r' # rs) of Inl e \<Rightarrow> Inl e | Inr t \<Rightarrow> Inr (s @ '','' @ t)))"

fun to_string :: "(int \<Rightarrow> string) \<Rightarrow> jsval \<Rightarrow> error + string" where
  "to_string nt JUndefined = Inr ''undefined''"
| "to_string nt JNull = Inr ''null''"
| "to_string nt (JBool b) = Inr (if b then ''true'' else ''false'')"
| "to_string nt (JNum n) = Inr (if \<bar>n\<bar> \<le> 9007199254740992 then show_int n else nt n)"
| "to_string nt (JStr s) = Inr s"
| "to_string nt (JArr xs) =
     join (map (\<lambda>x. if x = JUndefined \<or> x = JNull then Inr [] else to_string nt x) xs)"
| "to_string nt (JObj fs) =
     (if ''toString'' \<in> fst ` set fs then Inl (TypeError ''toString'')
      else Inr ''[object Object]'')"

text \<open>\<^verbatim>\<open>results.concat(v)\<close>: an array argument is spliced in, any other value is appended.\<close>

fun concat_js :: "jsval list \<Rightarrow> jsval \<Rightarrow> jsval list" where
  "concat_js results (JArr xs) = results @ xs"
| "concat_js results v = results @ [v]"

section \<open>Configuration, requests and the environment\<close>

text \<open>
  \<^verbatim>\<open>BubbleConfig\<close> is imported, not defined, by the file: the outcome of reading it in a
  getter (\<^verbatim>\<open>const { app, appVersion } = BubbleConfig.get()\<close>) is a parameter, either the
  configuration or the failure raised there (by \<^verbatim>\<open>get\<close>, or by the destructuring when
  \<^verbatim>\<open>get\<close> returns nothing). The optional version label is absent (\<^verbatim>\<open>None\<close>) or a text.
\<close>

record bubble_config =
  app :: string
  appVersion :: "string option"
  apiKey :: string

datatype http_method = GET | POST | PATCH

text \<open>
  A query parameter is a value handed to the transport as it is, or the JSON text of a
  value (\<^verbatim>\<open>JSON.stringify(v)\<close>), kept symbolic.
\<close>

datatype param = Plain jsval | JSON_stringify jsval

record request =
  meth :: http_method
  url :: string
  headers :: "(string \<times> string) list"
  params :: "(string \<times> param) list"
  payload :: "jsval option"

text \<open>
  The environment of a call: the outcome of reading the process-wide configuration; the
  transport, giving for a request the body \<^verbatim>\<open>res.data\<close> of the response or the failure
  that \<^verbatim>\<open>axios\<close> throws; and two functions of the runtime, the text of an integer
  beyond \<^verbatim>\<open>2^53\<close> and the comparison \<^verbatim>\<open>Number(s) <= 0\<close> of a text, which integers cannot
  express (the text may denote a fraction).
\<close>

record env =
  BubbleConfig_get :: "error + bubble_config"
  axios :: "request \<Rightarrow> error + jsval"
  number_text :: "int \<Rightarrow> string"
  text_le_zero :: "string \<Rightarrow> bool"

text \<open>
  An instance of a concrete record class, which is taken to declare its \<^verbatim>\<open>type\<close> as a
  field and nothing else: the value of that field, and the own enumerable properties
  in order. A \<^verbatim>\<open>type\<close> entry among them stands for the field, whose value is
  \<^verbatim>\<open>type_name\<close>. The field declarations of the base class (\<^verbatim>\<open>_id: string\<close> and the
  others) have no initialiser and are type annotations: they create no property.
\<close>

record BubbleDataType =
  type_name :: string
  props :: "(string \<times> jsval) list"

text \<open>
  The constructor's \<^verbatim>\<open>Object.assign(this, args)\<close> assigns the own properties of \<^verbatim>\<open>args\<close>
  (each name once) in order, by \<^verbatim>\<open>this[k] = v\<close>. On the prototype of the class
  \<^verbatim>\<open>headers\<close> and \<^verbatim>\<open>objectUrl\<close> have a getter only, so assigning them raises. Assigning
  \<^verbatim>\<open>__proto__\<close> runs the setter of \<^verbatim>\<open>Object.prototype\<close>: an object, an array or \<^verbatim>\<open>null\<close>
  replaces the prototype, after which no getter of the class is in the way; any other
  value is ignored. Every other name becomes an own property. The state is the
  replaced prototype, if any, and the own properties so far.
\<close>

fun is_object :: "jsval \<Rightarrow> bool" where
  "is_object (JObj fs) = True"
| "is_object (JArr xs) = True"
| "is_object v = False"

fun assign_this ::
  "(string \<times> jsval) list \<Rightarrow> jsval option \<Rightarrow> (string \<times> jsval) list
   \<Rightarrow> error + jsval option \<times> (string \<times> jsval) list" where
  "assign_this [] proto ps = Inr (proto, ps)"
| "assign_this ((k, v) # kvs) proto ps =
     (if k = ''__proto__''
      then assign_this kvs (if is_object v \<or> v = JNull then Some v else proto) ps
      else if proto = None \<and> (k = ''headers'' \<or> k = ''objectUrl'')
      then Inl (TypeError k)
      else assign_this kvs proto (AList.update k v ps))"

text \<open>
  \<^verbatim>\<open>new this(args)\<close>: the base constructor, then the field initialiser of the concrete
  class, which gives \<^verbatim>\<open>type\<close> its value also where \<^verbatim>\<open>args\<close> had assigned one. The result
  is the object and the prototype that replaced the class's, if one did.
\<close>

definition new_this :: "string \<Rightarrow> jsval \<Rightarrow> error + BubbleDataType \<times> jsval option" where
  "new_this cls args =
     (case assign_this (own_props args) None [] of
        Inl e \<Rightarrow> Inl e
      | Inr (proto, ps) \<Rightarrow>
          Inr (\<lparr>type_name = cls, props = AList.map_entry ''type'' (\<lambda>v. JStr cls) ps\<rparr>,
               proto))"

text \<open>An operation yields its result or the error it raises, and the requests it issued.\<close>

type_synonym 'a outcome = "(error + 'a) \<times> request list"

section \<open>The getters\<close>

definition get_headers :: "env \<Rightarrow> error + (string \<times> string) list" where
  "get_headers E =
     (case BubbleConfig_get E of
        Inl e \<Rightarrow> Inl e
      | Inr c \<Rightarrow> Inr [(''Authorization'', ''Bearer '' @ apiKey c)])"

definition objectUrl :: "env \<Rightarrow> BubbleDataType \<Rightarrow> error + string" where
  "objectUrl E this =
     (case BubbleConfig_get E of
        Inl e \<Rightarrow> Inl e
      | Inr c \<Rightarrow>
          let versionPart =
                (case appVersion c of
                   None \<Rightarrow> []
                 | Some v \<Rightarrow> if truthy (JStr v) then ''/'' @ v else [])
          in Inr (''https://'' @ app c @ ''.bubbleapps.io'' @ versionPart
                  @ ''/api/1.1/obj/'' @ type_name this))"

text \<open>\<^verbatim>\<open>const { objectUrl, headers } = x\<close>: the two getters run in this order.\<close>

definition destructure :: "env \<Rightarrow> BubbleDataType \<Rightarrow> error + string \<times> (string \<times> string) list" where
  "destructure E this =
     (case objectUrl E this of
        Inl e \<Rightarrow> Inl e
      | Inr u \<Rightarrow> (case get_headers E of Inl e \<Rightarrow> Inl e | Inr h \<Rightarrow> Inr (u, h)))"

section \<open>The static operations\<close>

text \<open>
  Each static operation is called on a concrete record class, given here by its
  \<^verbatim>\<open>type\<close>, and starts with \<^verbatim>\<open>const { objectUrl, headers } = new this({})\<close>; constructed
  from \<^verbatim>\<open>{}\<close>, the object has the prototype of the class.
\<close>

definition destructure_new :: "env \<Rightarrow> string \<Rightarrow> error + string \<times> (string \<times> string) list" where
  "destructure_new E cls =
     (case new_this cls (JObj []) of
        Inl e \<Rightarrow> Inl e
      | Inr (this, proto) \<Rightarrow> destructure E this)"

definition getByID ::
  "env \<Rightarrow> string \<Rightarrow> string \<Rightarrow> (BubbleDataType \<times> jsval option) outcome" where
  "getByID E cls id' =
     (case destructure_new E cls of
        Inl e \<Rightarrow> (Inl e, [])
      | Inr (u, h) \<Rightarrow>
          let req = \<lparr>meth = GET, url = u @ ''/'' @ id', headers = h, params = [],
                     payload = None\<rparr>
          in (case axios E req of
                Inl e \<Rightarrow> (Inl e, [req])
              | Inr res_data \<Rightarrow>
                  if \<not> truthy res_data
                  then (Inl (Error ''Unexpected response from bubble: no body''), [req])
                  else (case get_prop res_data ''response'' of
                          Inl e \<Rightarrow> (Inl e, [req])
                        | Inr r \<Rightarrow> (new_this cls r, [req]))))"

definition create :: "env \<Rightarrow> string \<Rightarrow> jsval \<Rightarrow> jsval outcome" where
  "create E cls data =
     (case destructure_new E cls of
        Inl e \<Rightarrow> (Inl e, [])
      | Inr (u, h) \<Rightarrow>
          let req = \<lparr>meth = POST, url = u @ ''/'', headers = h, params = [],
                     payload = Some data\<rparr>
          in (case axios E req of
                Inl e \<Rightarrow> (Inl e, [req])
              | Inr res_data \<Rightarrow>
                  if \<not> truthy res_data
                  then (Inl (Error ''Unexpected response from bubble: no body''), [req])
                  else (case get_prop res_data ''status'' of
                          Inl e \<Rightarrow> (Inl e, [req])
                        | Inr status \<Rightarrow>
                            (case get_prop res_data ''id'' of
                               Inl e \<Rightarrow> (Inl e, [req])
                             | Inr i \<Rightarrow>
                                 if status \<noteq> JStr ''success'' \<or> \<not> truthy i
                                 then (case to_string (number_text E) status of
                                         Inl e \<Rightarrow> (Inl e, [req])
                                       | Inr s \<Rightarrow>
                                           (Inl (Error (''create request failed with status: ''
                                                        @ s)), [req]))
                                 else (Inr i, [req])))))"

text \<open>
  The query parameters of \<^verbatim>\<open>search\<close>: the \<^verbatim>\<open>params\<close> object literal, whose property reads
  raise when \<^verbatim>\<open>config\<close> is \<^verbatim>\<open>null\<close>.
\<close>

definition search_params :: "jsval \<Rightarrow> error + (string \<times> param) list" where
  "search_params config =
     (case get_prop config ''constraints'' of
        Inl e \<Rightarrow> Inl e
      | Inr constraints \<Rightarrow>
          (case get_prop config ''sort'' of
             Inl e \<Rightarrow> Inl e
           | Inr sort' \<Rightarrow>
               (case get_prop config ''cursor'' of
                  Inl e \<Rightarrow> Inl e
                | Inr cursor \<Rightarrow>
                    Inr [(''constraints'',
                            JSON_stringify (if truthy constraints then constraints else JArr [])),
                         (''sort_field'', Plain (opt_chain sort' ''sort_field'')),
                         (''descending'',
                            Plain (if truthy (opt_chain sort' ''descending'')
                                   then JStr ''true'' else JBool False)),
                         (''cursor'', Plain cursor)])))"

text \<open>The parameter default \<^verbatim>\<open>config = {}\<close> replaces \<^verbatim>\<open>undefined\<close> only.\<close>

definition search :: "env \<Rightarrow> string \<Rightarrow> jsval \<Rightarrow> jsval outcome" where
  "search E cls config0 =
     (let config = (if config0 = JUndefined then JObj [] else config0) in
      case destructure_new E cls of
        Inl e \<Rightarrow> (Inl e, [])
      | Inr (u, h) \<Rightarrow>
          (case search_params config of
             Inl e \<Rightarrow> (Inl e, [])
           | Inr ps \<Rightarrow>
               let req = \<lparr>meth = GET, url = u, headers = h, params = ps, payload = None\<rparr>
               in (case axios E req of
                     Inl e \<Rightarrow> (Inl e, [req])
                   | Inr res_data \<Rightarrow>
                       if \<not> truthy (opt_chain res_data ''response'')
                       then (Inl (Error ''search request failed''), [req])
                       else (Inr (opt_chain res_data ''response''), [req]))))"

text \<open>
  \<^verbatim>\<open>v <= 0\<close>: the operand is converted to a number. \<^verbatim>\<open>undefined\<close> gives NaN, for which
  the comparison is false. An object or an array converts through its text: for an
  object that raises or is \<^verbatim>\<open>[object Object]\<close>, which is NaN; the text of an array, like
  any text, is compared by the runtime.
\<close>

fun js_le_zero :: "(int \<Rightarrow> string) \<Rightarrow> (string \<Rightarrow> bool) \<Rightarrow> jsval \<Rightarrow> error + bool" where
  "js_le_zero nt t JUndefined = Inr False"
| "js_le_zero nt t JNull = Inr True"
| "js_le_zero nt t (JBool b) = Inr (\<not> b)"
| "js_le_zero nt t (JNum n) = Inr (n \<le> 0)"
| "js_le_zero nt t (JStr s) = Inr (t s)"
| "js_le_zero nt t (JArr xs) =
     (case to_string nt (JArr xs) of Inl e \<Rightarrow> Inl e | Inr s \<Rightarrow> Inr (t s))"
| "js_le_zero nt t (JObj fs) =
     (case to_string nt (JObj fs) of Inl e \<Rightarrow> Inl e | Inr s \<Rightarrow> Inr False)"

text \<open>The spread \<^verbatim>\<open>{...config, cursor}\<close>.\<close>

definition with_cursor :: "jsval \<Rightarrow> nat \<Rightarrow> jsval" where
  "with_cursor config cursor =
     JObj (AList.update ''cursor'' (JNum (int cursor)) (own_props config))"

text \<open>
  The page loop of \<^verbatim>\<open>getAll\<close>, from the state \<^verbatim>\<open>cursor\<close>, \<^verbatim>\<open>results\<close> (and the requests
  issued so far). The loop has no bound: where it runs forever the value is \<^verbatim>\<open>None\<close>.
\<close>

partial_function (option) getAll_loop ::
  "env \<Rightarrow> string \<Rightarrow> jsval \<Rightarrow> nat \<Rightarrow> jsval list \<Rightarrow> request list
   \<Rightarrow> (jsval list) outcome option" where
  "getAll_loop E cls config cursor results log =
     (case search E cls (with_cursor config cursor) of
        (Inl e, reqs) \<Rightarrow> Some (Inl e, log @ reqs)
      | (Inr res, reqs) \<Rightarrow>
          (case get_prop res ''results'' of
             Inl e \<Rightarrow> Some (Inl e, log @ reqs)
           | Inr page \<Rightarrow>
               (case get_prop res ''remaining'' of
                  Inl e \<Rightarrow> Some (Inl e, log @ reqs)
                | Inr remaining \<Rightarrow>
                    (case js_le_zero (number_text E) (text_le_zero E) remaining of
                       Inl e \<Rightarrow> Some (Inl e, log @ reqs)
                     | Inr stop \<Rightarrow>
                         if stop then Some (Inr (concat_js results page), log @ reqs)
                         else getAll_loop E cls config (Suc cursor) (concat_js results page)
                                (log @ reqs)))))"

declare getAll_loop.simps [code]

definition getAll :: "env \<Rightarrow> string \<Rightarrow> jsval \<Rightarrow> (jsval list) outcome option" where
  "getAll E cls config = getAll_loop E cls config 0 [] []"

definition getOne :: "env \<Rightarrow> string \<Rightarrow> jsval \<Rightarrow> jsval outcome" where
  "getOne E cls config =
     (case search E cls config of
        (Inl e, reqs) \<Rightarrow> (Inl e, reqs)
      | (Inr searchResults, reqs) \<Rightarrow>
          (case get_prop searchResults ''response'' of
             Inl e \<Rightarrow> (Inl e, reqs)
           | Inr response \<Rightarrow>
               (case get_prop response ''results'' of
                  Inl e \<Rightarrow> (Inl e, reqs)
                | Inr results \<Rightarrow>
                    (case get_index results 0 of
                       Inl e \<Rightarrow> (Inl e, reqs)
                     | Inr first \<Rightarrow> (Inr (if truthy first then first else JNull), reqs)))))"

section \<open>The instance operation\<close>

text \<open>\<^verbatim>\<open>this._id\<close>, an own property of the instance or \<^verbatim>\<open>undefined\<close>.\<close>

definition this_id :: "BubbleDataType \<Rightarrow> jsval" where
  "this_id this = (case map_of (props this) ''_id'' of None \<Rightarrow> JUndefined | Some v \<Rightarrow> v)"

text \<open>
  \<^verbatim>\<open>Object.assign({}, this)\<close>, the payload of \<^verbatim>\<open>save\<close>: the own enumerable properties of the
  instance, the \<^verbatim>\<open>type\<close> field among them (the two getters live on the prototype and are
  not copied), assigned to a plain object, where a \<^verbatim>\<open>__proto__\<close> entry meets the setter
  and leaves no own property.
\<close>

definition assign_plain :: "BubbleDataType \<Rightarrow> jsval" where
  "assign_plain this =
     JObj (AList.delete ''__proto__''
             (AList.update ''type'' (JStr (type_name this)) (AList.clearjunk (props this))))"

definition save :: "env \<Rightarrow> BubbleDataType \<Rightarrow> unit outcome" where
  "save E this =
     (case destructure E this of
        Inl e \<Rightarrow> (Inl e, [])
      | Inr (u, h) \<Rightarrow>
          if \<not> truthy (this_id this)
          then (Inl (Error ''Cannot call save on a BubbleDataType without an _id value.''), [])
          else
            (case to_string (number_text E) (this_id this) of
               Inl e \<Rightarrow> (Inl e, [])
             | Inr s \<Rightarrow>
                 let req = \<lparr>meth = PATCH, url = u @ ''/'' @ s, headers = h, params = [],
                            payload = Some (assign_plain this)\<rparr>
                 in (case axios E req of
                       Inl e \<Rightarrow> (Inl e, [req])
                     | Inr res_data \<Rightarrow> (Inr (), [req]))))"

section \<open>The interface in the words of the specification\<close>

text \<open>
  The collection URL \<^verbatim>\<open>https://{app}.bubbleapps.io[/{appVersion}]/api/1.1/obj/{typeName}\<close>,
  a version label being set when \<^verbatim>\<open>appVersion\<close> holds a non-empty text, and the header
  \<^verbatim>\<open>Authorization: Bearer {apiKey}\<close>.
\<close>

definition spec_url :: "bubble_config \<Rightarrow> string \<Rightarrow> string" where
  "spec_url c typeName =
     ''https://'' @ app c @ ''.bubbleapps.io''
     @ (case appVersion c of None \<Rightarrow> [] | Some v \<Rightarrow> if v = [] then [] else ''/'' @ v)
     @ ''/api/1.1/obj/'' @ typeName"

definition spec_headers :: "bubble_config \<Rightarrow> (string \<times> string) list" where
  "spec_headers c = [(''Authorization'', ''Bearer '' @ apiKey c)]"

text \<open>The \<^verbatim>\<open>cursor\<close> query parameters of a sequence of requests.\<close>

definition cursors :: "request list \<Rightarrow> param option list" where
  "cursors log = map (\<lambda>r. map_of (params r) ''cursor'') log"

section \<open>Example environments\<close>

text \<open>
  A configured process whose transport is \<^verbatim>\<open>f\<close>; the body of a search response; a
  service holding three records in two pages; and a service whose connection drops
  after the first page.
\<close>

definition example_config :: bubble_config where
  "example_config = \<lparr>app = ''shop'', appVersion = Some ''version-test'', apiKey = ''k1''\<rparr>"

definition answering :: "(request \<Rightarrow> error + jsval) \<Rightarrow> env" where
  "answering f =
     \<lparr>BubbleConfig_get = Inr example_config, axios = f, number_text = (\<lambda>n. []),
      text_le_zero = (\<lambda>s. False)\<rparr>"

definition page_body :: "jsval list \<Rightarrow> int \<Rightarrow> jsval" where
  "page_body rs m =
     JObj [(''response'', JObj [(''results'', JArr rs), (''remaining'', JNum m)])]"

definition two_pages :: "request \<Rightarrow> error + jsval" where
  "two_pages r =
     (if map_of (params r) ''cursor'' = Some (Plain (JNum 1))
      then Inr (page_body [JStr ''c''] 0)
      else Inr (page_body [JStr ''a'', JStr ''b''] 1))"

definition flaky :: "request \<Rightarrow> error + jsval" where
  "flaky r =
     (if map_of (params r) ''cursor'' = Some (Plain (JNum 0))
      then Inr (page_body [JStr ''a''] 1)
      else Inl (Thrown ''socket hang up''))"

section \<open>Auxiliary facts\<close>


lemma destructure_readable:
  "BubbleConfig_get E = Inr c \<Longrightarrow>
   destructure E this =
     Inr (''https://'' @ app c @ ''.bubbleapps.io''
            @ (case appVersion c of None \<Rightarrow> [] | Some v \<Rightarrow> if v = [] then [] else ''/'' @ v)
            @ ''/api/1.1/obj/'' @ type_name this,
          [(''Authorization'', ''Bearer '' @ apiKey c)])"
  by (simp add: destructure_def objectUrl_def get_headers_def split: option.splits)

lemma destructure_unreadable:
  "BubbleConfig_get E = Inl e \<Longrightarrow> destructure E this = Inl e"
  by (simp add: destructure_def objectUrl_def)

lemma destructure_cases:
  "(\<exists>e. BubbleConfig_get E = Inl e \<and> destructure E this = Inl e) \<or>
   (\<exists>c u h. BubbleConfig_get E = Inr c \<and> destructure E this = Inr (u, h))"
  by (cases "BubbleConfig_get E") (simp_all add: destructure_unreadable destructure_readable)

lemma new_this_empty: "new_this cls (JObj []) = Inr (\<lparr>type_name = cls, props = []\<rparr>, None)"
  by (simp add: new_this_def)

lemma new_this_undefined: "new_this cls JUndefined = Inr (\<lparr>type_name = cls, props = []\<rparr>, None)"
  by (simp add: new_this_def)

lemma destructure_new:
  "destructure_new E cls = destructure E \<lparr>type_name = cls, props = []\<rparr>"
  by (simp add: destructure_new_def new_this_empty)

lemma opt_chain_default:
  "opt_chain (if config = JUndefined then JObj [] else config) k = opt_chain config k"
  by (simp add: opt_chain_def)

lemma search_params_lookup:
  assumes "search_params config = Inr ps"
  shows "map_of ps ''descending'' =
           Some (Plain (if truthy (opt_chain (opt_chain config ''sort'') ''descending'')
                        then JStr ''true'' else JBool False))"
    and "map_of ps ''cursor'' = Some (Plain (opt_chain config ''cursor''))"
  using assms by (auto simp: search_params_def opt_chain_def split: sum.splits)

lemma search_log:
  assumes "req \<in> set (snd (search E cls config))"
  shows "search_params (if config = JUndefined then JObj [] else config) = Inr (params req)"
    and "snd (search E cls config) = [req]"
    and "destructure_new E cls = Inr (url req, headers req)"
    and "meth req = GET"
  using assms by (auto simp: search_def Let_def split: sum.splits if_splits)

lemma with_cursor_cursor: "opt_chain (with_cursor config k) ''cursor'' = JNum (int k)"
  by (simp add: with_cursor_def opt_chain_def update_conv')

lemma search_ok_log:
  assumes "fst (search E cls (with_cursor config k)) = Inr p"
  shows "\<exists>r. search E cls (with_cursor config k) = (Inr p, [r])
            \<and> map_of (params r) ''cursor'' = Some (Plain (JNum (int k)))"
proof -
  have nu: "with_cursor config k \<noteq> JUndefined" by (simp add: with_cursor_def)
  from assms obtain r where r: "snd (search E cls (with_cursor config k)) = [r]"
    by (auto simp: search_def Let_def split: sum.splits if_splits)
  then have "r \<in> set (snd (search E cls (with_cursor config k)))" by simp
  from search_params_lookup(2) [OF search_log(1) [OF this]] nu
  have "map_of (params r) ''cursor'' = Some (Plain (JNum (int k)))"
    by (simp add: with_cursor_cursor)
  with r assms show ?thesis by (metis prod.collapse)
qed

lemma getAll_loop_continue:
  assumes "search E cls (with_cursor config k) = (Inr p, reqs)"
    and "get_prop p ''results'' = Inr (JArr rs)"
    and "get_prop p ''remaining'' = Inr (JNum m)" and "0 < m"
  shows "getAll_loop E cls config k acc log =
         getAll_loop E cls config (Suc k) (acc @ rs) (log @ reqs)"
  using assms by (subst getAll_loop.simps) simp

lemma getAll_loop_stop:
  assumes "search E cls (with_cursor config k) = (Inr p, reqs)"
    and "get_prop p ''results'' = Inr (JArr rs)"
    and "get_prop p ''remaining'' = Inr (JNum m)" and "m \<le> 0"
  shows "getAll_loop E cls config k acc log = Some (Inr (acc @ rs), log @ reqs)"
  using assms by (subst getAll_loop.simps) simp

lemma getAll_loop_fail:
  assumes "search E cls (with_cursor config k) = (Inl e, reqs)"
  shows "getAll_loop E cls config k acc log = Some (Inl e, log @ reqs)"
  using assms by (subst getAll_loop.simps) simp

lemma getAll_loop_advance:
  assumes "\<forall>k<n. fst (search E cls (with_cursor config k)) = Inr (page k)"
    and "\<forall>k<n. get_prop (page k) ''results'' = Inr (JArr (rs k))"
    and "\<forall>k<n. get_prop (page k) ''remaining'' = Inr (JNum (remaining k))"
    and "\<forall>k<n. 0 < remaining k"
  shows "\<exists>log. getAll_loop E cls config 0 [] [] =
                 getAll_loop E cls config n (concat (map rs [0..<n])) log
             \<and> cursors log =
                 map (\<lambda>k. Some (Plain (JNum (int k)))) [0..<n]"
  using assms
proof (induction n)
  case 0
  show ?case by (simp add: cursors_def)
next
  case (Suc n)
  then obtain log where
    step: "getAll_loop E cls config 0 [] [] =
           getAll_loop E cls config n (concat (map rs [0..<n])) log"
    and cur: "cursors log =
              map (\<lambda>k. Some (Plain (JNum (int k)))) [0..<n]"
    by auto
  from Suc.prems(1) have "fst (search E cls (with_cursor config n)) = Inr (page n)" by simp
  from search_ok_log [OF this] obtain r where
    r: "search E cls (with_cursor config n) = (Inr (page n), [r])"
    and rc: "map_of (params r) ''cursor'' = Some (Plain (JNum (int n)))" by blast
  have "getAll_loop E cls config n (concat (map rs [0..<n])) log =
        getAll_loop E cls config (Suc n) (concat (map rs [0..<n]) @ rs n) (log @ [r])"
    using Suc.prems by (intro getAll_loop_continue [OF r]) auto
  with step cur rc show ?case
    by (intro exI [of _ "log @ [r]"]) (simp add: cursors_def)
qed

lemma destructure_spec:
  "BubbleConfig_get E = Inr c \<Longrightarrow>
   destructure E this = Inr (spec_url c (type_name this), spec_headers c)"
  by (simp add: destructure_readable spec_url_def spec_headers_def)

lemma getByID_requests:
  assumes "BubbleConfig_get E = Inr c" and "r \<in> set (snd (getByID E cls i))"
  shows "url r = spec_url c cls @ ''/'' @ i \<and> headers r = spec_headers c"
  using assms(2)
  by (auto simp: getByID_def destructure_new destructure_spec [OF assms(1)] Let_def
           split: sum.splits if_splits)

lemma create_requests:
  assumes "BubbleConfig_get E = Inr c" and "r \<in> set (snd (create E cls d))"
  shows "url r = spec_url c cls @ ''/'' \<and> headers r = spec_headers c"
  using assms(2)
  by (auto simp: create_def destructure_new destructure_spec [OF assms(1)] Let_def
           split: sum.splits if_splits)

lemma search_requests:
  assumes "BubbleConfig_get E = Inr c" and "r \<in> set (snd (search E cls config))"
  shows "url r = spec_url c cls \<and> headers r = spec_headers c"
  using search_log(3) [OF assms(2)]
  by (simp add: destructure_new destructure_spec [OF assms(1)])

lemma getOne_log: "snd (getOne E cls config) = snd (search E cls config)"
  by (simp add: getOne_def split: prod.splits sum.splits)

lemma save_requests:
  assumes "BubbleConfig_get E = Inr c" and "r \<in> set (snd (save E this))"
  shows "(\<exists>s. to_string (number_text E) (this_id this) = Inr s
            \<and> url r = spec_url c (type_name this) @ ''/'' @ s)
       \<and> headers r = spec_headers c"
  using assms(2)
  by (auto simp: save_def destructure_spec [OF assms(1)] Let_def
           split: sum.splits if_splits)

lemma getAll_loop_requests:
  assumes "getAll_loop E cls config k acc log = Some out"
  shows "(\<forall>r\<in>set log. P r) \<longrightarrow>
         (\<forall>j. \<forall>r\<in>set (snd (search E cls (with_cursor config j))). P r) \<longrightarrow>
         (\<forall>r\<in>set (snd out). P r)"
proof (rule getAll_loop.raw_induct [where
      P = "\<lambda>E cls config k acc log out. (\<forall>r\<in>set log. P r) \<longrightarrow>
         (\<forall>j. \<forall>r\<in>set (snd (search E cls (with_cursor config j))). P r) \<longrightarrow>
         (\<forall>r\<in>set (snd out). P r)", OF _ assms], goal_cases)
  case (1 loop E cls config cursor results log out)
  show ?case
  proof (intro impI)
    assume old: "\<forall>r\<in>set log. P r"
      and new: "\<forall>j. \<forall>r\<in>set (snd (search E cls (with_cursor config j))). P r"
    obtain res reqs where s: "search E cls (with_cursor config cursor) = (res, reqs)"
      by (cases "search E cls (with_cursor config cursor)") auto
    with new have reqs: "\<forall>r\<in>set reqs. P r" by (metis snd_conv)
    with old have both: "\<forall>r\<in>set (log @ reqs). P r" by auto
    from "1"(2) [unfolded s] both show "\<forall>r\<in>set (snd out). P r"
      using "1"(1) new
      by (auto split: sum.splits if_splits)
  qed
qed

section \<open>getOne\<close>

text \<open>
  A page as \<^verbatim>\<open>search\<close> returns it has no \<^verbatim>\<open>response\<close> property of its own, so the second
  unwrapping in \<^verbatim>\<open>searchResults.response.results[0]\<close> reads \<^verbatim>\<open>results\<close> of \<^verbatim>\<open>undefined\<close>.
\<close>

lemma getOne_unwraps_twice:
  assumes "fst (search E cls config) = Inr p" and "get_prop p ''response'' = Inr JUndefined"
  shows "fst (getOne E cls config) = Inl (TypeError ''results'')"
proof -
  obtain reqs where "search E cls config = (Inr p, reqs)"
    using assms(1) by (metis prod.collapse)
  then show ?thesis using assms(2) by (simp add: getOne_def)
qed

lemma search_answering:
  "truthy (opt_chain body ''response'') \<Longrightarrow>
   fst (search (answering (\<lambda>r. Inr body)) cls (JObj [])) = Inr (opt_chain body ''response'')"
  by (simp add: search_def answering_def destructure_new destructure_def objectUrl_def get_headers_def
      search_params_def)

text \<open>
  C1: for every search configuration, \<^verbatim>\<open>getOne\<close> performs a single \<^verbatim>\<open>search\<close> call and
  returns the first element of the result sequence, or null when it is empty, and does
  not raise when \<^verbatim>\<open>search\<close> succeeds. The code does otherwise: where the service answers
  with one matching record and where it answers with none, \<^verbatim>\<open>search\<close> succeeds with the
  page and \<^verbatim>\<open>getOne\<close> raises a TypeError.
\<close>

theorem getOne_raises_on_page:
  "fst (search (answering (\<lambda>r. Inr (page_body [JObj [(''_id'', JStr ''1700x1'')]] 0)))
         ''task'' (JObj [])) =
     Inr (JObj [(''results'', JArr [JObj [(''_id'', JStr ''1700x1'')]]),
                (''remaining'', JNum 0)])
   \<and> fst (getOne (answering (\<lambda>r. Inr (page_body [JObj [(''_id'', JStr ''1700x1'')]] 0)))
         ''task'' (JObj [])) = Inl (TypeError ''results'')
   \<and> fst (search (answering (\<lambda>r. Inr (page_body [] 0))) ''task'' (JObj [])) =
     Inr (JObj [(''results'', JArr []), (''remaining'', JNum 0)])
   \<and> fst (getOne (answering (\<lambda>r. Inr (page_body [] 0))) ''task'' (JObj [])) =
     Inl (TypeError ''results'')"
proof -
  have a: "fst (search (answering (\<lambda>r. Inr (page_body rs 0))) ''task'' (JObj [])) =
      Inr (JObj [(''results'', JArr rs), (''remaining'', JNum 0)])" for rs
    using search_answering [of "page_body rs 0" "''task''"]
    by (simp add: page_body_def opt_chain_def)
  have b: "fst (getOne (answering (\<lambda>r. Inr (page_body rs 0))) ''task'' (JObj [])) =
      Inl (TypeError ''results'')" for rs
    by (rule getOne_unwraps_twice [OF a]) simp
  from a b show ?thesis by blast
qed

section \<open>getAll\<close>

text \<open>
  C2: for every sequence of page responses returned by \<^verbatim>\<open>search\<close>, \<^verbatim>\<open>getAll\<close> invokes
  \<^verbatim>\<open>search\<close> with a cursor that starts at 0 and increments by 1, stops at the first page
  whose remaining count is zero or less, and returns exactly the concatenation of the
  pages' results arrays in request order. Here the pages at the cursors \<^verbatim>\<open>0..n\<close> are
  \<^verbatim>\<open>page 0, ..., page n\<close>, with results \<^verbatim>\<open>rs k\<close> and remaining counts \<^verbatim>\<open>remaining k\<close>, of
  which the last is the first that is not positive: the loop returns, its result is
  \<^verbatim>\<open>rs 0 @ ... @ rs n\<close>, and it issued \<^verbatim>\<open>n + 1\<close> requests, with cursors \<^verbatim>\<open>0, 1, ..., n\<close>.
\<close>

theorem getAll_concatenates_pages:
  assumes "\<forall>k\<le>n. fst (search E cls (with_cursor config k)) = Inr (page k)"
    and "\<forall>k\<le>n. get_prop (page k) ''results'' = Inr (JArr (rs k))"
    and "\<forall>k\<le>n. get_prop (page k) ''remaining'' = Inr (JNum (remaining k))"
    and "\<forall>k<n. 0 < remaining k"
    and "remaining n \<le> 0"
  shows "\<exists>log. getAll E cls config = Some (Inr (concat (map rs [0..<Suc n])), log)
             \<and> cursors log = map (\<lambda>k. Some (Plain (JNum (int k)))) [0..<Suc n]"
proof -
  from assms have "\<exists>log. getAll_loop E cls config 0 [] [] =
                 getAll_loop E cls config n (concat (map rs [0..<n])) log
             \<and> cursors log = map (\<lambda>k. Some (Plain (JNum (int k)))) [0..<n]"
    by (intro getAll_loop_advance [where page = page and remaining = remaining]) auto
  then obtain log where
    step: "getAll_loop E cls config 0 [] [] =
           getAll_loop E cls config n (concat (map rs [0..<n])) log"
    and cur: "cursors log = map (\<lambda>k. Some (Plain (JNum (int k)))) [0..<n]"
    by auto
  from assms(1) have "fst (search E cls (with_cursor config n)) = Inr (page n)" by simp
  from search_ok_log [OF this] obtain r where
    r: "search E cls (with_cursor config n) = (Inr (page n), [r])"
    and rc: "map_of (params r) ''cursor'' = Some (Plain (JNum (int n)))" by blast
  have "getAll_loop E cls config n (concat (map rs [0..<n])) log =
        Some (Inr (concat (map rs [0..<n]) @ rs n), log @ [r])"
    using assms by (intro getAll_loop_stop [OF r]) auto
  with step cur rc show ?thesis
    by (intro exI [of _ "log @ [r]"]) (simp add: getAll_def cursors_def)
qed

lemma two_pages_search_0:
  "fst (search (answering two_pages) ''task'' (with_cursor (JObj []) 0)) =
     Inr (JObj [(''results'', JArr [JStr ''a'', JStr ''b'']), (''remaining'', JNum 1)])"
  by (simp add: search_def with_cursor_def answering_def destructure_new destructure_def objectUrl_def
      get_headers_def search_params_def opt_chain_def two_pages_def page_body_def)

lemma two_pages_search_1:
  "fst (search (answering two_pages) ''task'' (with_cursor (JObj []) (Suc 0))) =
     Inr (JObj [(''results'', JArr [JStr ''c'']), (''remaining'', JNum 0)])"
  by (simp add: search_def with_cursor_def answering_def destructure_new destructure_def objectUrl_def
      get_headers_def search_params_def opt_chain_def two_pages_def page_body_def)

theorem getAll_concatenates_pages_witness:
  "\<exists>log. getAll (answering two_pages) ''task'' (JObj []) =
            Some (Inr [JStr ''a'', JStr ''b'', JStr ''c''], log)
       \<and> cursors log = [Some (Plain (JNum 0)), Some (Plain (JNum 1))]"
proof -
  let ?page = "\<lambda>k::nat. if k = 0
      then JObj [(''results'', JArr [JStr ''a'', JStr ''b'']), (''remaining'', JNum 1)]
      else JObj [(''results'', JArr [JStr ''c'']), (''remaining'', JNum 0)]"
  let ?rs = "\<lambda>k::nat. if k = 0 then [JStr ''a'', JStr ''b''] else [JStr ''c'']"
  let ?rem = "\<lambda>k::nat. if k = 0 then 1 else (0::int)"
  have 1: "\<forall>k\<le>1. fst (search (answering two_pages) ''task'' (with_cursor (JObj []) k)) =
             Inr (?page k)"
  proof (intro allI impI)
    fix k :: nat assume "k \<le> 1"
    then consider "k = 0" | "k = Suc 0" by linarith
    then show "fst (search (answering two_pages) ''task'' (with_cursor (JObj []) k)) =
        Inr (?page k)"
      by cases (simp_all add: two_pages_search_0 two_pages_search_1)
  qed
  have 2: "\<forall>k\<le>1. get_prop (?page k) ''results'' = Inr (JArr (?rs k))" by simp
  have 3: "\<forall>k\<le>1. get_prop (?page k) ''remaining'' = Inr (JNum (?rem k))" by simp
  have 4: "\<forall>k<1. 0 < ?rem k" by simp
  have 5: "?rem 1 \<le> 0" by simp
  from getAll_concatenates_pages [of 1 "answering two_pages" "''task''" "JObj []"
      ?page ?rs ?rem, OF 1 2 3 4 5]
  show ?thesis by (simp add: upt_rec)
qed

text \<open>
  C3: when the first page reports zero results and a remaining count of zero, \<^verbatim>\<open>getAll\<close>
  returns the empty sequence after issuing exactly one search request.
\<close>

theorem getAll_empty_first_page:
  assumes "fst (search E cls (with_cursor config 0)) = Inr page"
    and "get_prop page ''results'' = Inr (JArr [])"
    and "get_prop page ''remaining'' = Inr (JNum 0)"
  shows "\<exists>req. getAll E cls config = Some (Inr [], [req])
             \<and> snd (search E cls (with_cursor config 0)) = [req]"
proof -
  from search_ok_log [OF assms(1)] obtain r where
    r: "search E cls (with_cursor config 0) = (Inr page, [r])" by blast
  have "getAll_loop E cls config 0 [] [] = Some (Inr ([] @ []), [] @ [r])"
    using assms(2,3) by (intro getAll_loop_stop [OF r]) auto
  with r show ?thesis by (simp add: getAll_def)
qed

theorem getAll_empty_first_page_witness:
  "\<exists>req. getAll (answering (\<lambda>r. Inr (page_body [] 0))) ''task'' (JObj []) =
            Some (Inr [], [req])"
proof -
  have "fst (search (answering (\<lambda>r. Inr (page_body [] 0))) ''task''
               (with_cursor (JObj []) 0)) =
          Inr (JObj [(''results'', JArr []), (''remaining'', JNum 0)])"
    by (simp add: search_def with_cursor_def answering_def destructure_new destructure_def objectUrl_def
        get_headers_def search_params_def opt_chain_def page_body_def)
  from getAll_empty_first_page [OF this] show ?thesis by auto
qed

text \<open>
  C8: when a \<^verbatim>\<open>search\<close> call fails in the page loop, after any number \<^verbatim>\<open>n\<close> of pages that
  asked for more, \<^verbatim>\<open>getAll\<close> raises that failure; the outcome is the error alone, and the
  results accumulated from the earlier pages are not returned.
\<close>

theorem getAll_propagates_failure:
  assumes "\<forall>k<n. fst (search E cls (with_cursor config k)) = Inr (page k)"
    and "\<forall>k<n. get_prop (page k) ''results'' = Inr (JArr (rs k))"
    and "\<forall>k<n. get_prop (page k) ''remaining'' = Inr (JNum (remaining k))"
    and "\<forall>k<n. 0 < remaining k"
    and "fst (search E cls (with_cursor config n)) = Inl e"
  shows "\<exists>log. getAll E cls config = Some (Inl e, log)"
proof -
  from getAll_loop_advance [OF assms(1-4)] obtain log where
    step: "getAll_loop E cls config 0 [] [] =
           getAll_loop E cls config n (concat (map rs [0..<n])) log"
    by auto
  obtain reqs where r: "search E cls (with_cursor config n) = (Inl e, reqs)"
    using assms(5) by (metis prod.collapse)
  from getAll_loop_fail [OF r] step show ?thesis
    by (simp add: getAll_def)
qed

theorem getAll_propagates_failure_witness:
  "\<exists>log. getAll (answering flaky) ''task'' (JObj []) = Some (Inl (Thrown ''socket hang up''), log)"
proof -
  let ?page = "\<lambda>k::nat. JObj [(''results'', JArr [JStr ''a'']), (''remaining'', JNum 1)]"
  have 1: "\<forall>k<1. fst (search (answering flaky) ''task'' (with_cursor (JObj []) k)) =
             Inr (?page k)"
    by (simp add: search_def with_cursor_def answering_def destructure_new destructure_def objectUrl_def
        get_headers_def search_params_def opt_chain_def flaky_def page_body_def)
  have 2: "\<forall>k<1. get_prop (?page k) ''results'' = Inr (JArr ((\<lambda>k. [JStr ''a'']) k))"
    by simp
  have 3: "\<forall>k<1. get_prop (?page k) ''remaining'' = Inr (JNum ((\<lambda>k. 1) k))" by simp
  have 4: "\<forall>k<1. 0 < (\<lambda>k::nat. 1::int) k" by simp
  have 5: "fst (search (answering flaky) ''task'' (with_cursor (JObj []) 1)) =
             Inl (Thrown ''socket hang up'')"
    by (simp add: search_def with_cursor_def answering_def destructure_new destructure_def objectUrl_def
        get_headers_def search_params_def opt_chain_def flaky_def page_body_def)
  from getAll_propagates_failure [OF 1 2 3 4 5] show ?thesis .
qed

section \<open>create\<close>





section \<open>search\<close>

text \<open>
  C6: in every request that \<^verbatim>\<open>search\<close> issues, the \<^verbatim>\<open>descending\<close> parameter is the text
  \<^verbatim>\<open>"true"\<close> when the \<^verbatim>\<open>descending\<close> flag of the configuration's \<^verbatim>\<open>sort\<close> is set (truthy), and
  the boolean \<^verbatim>\<open>false\<close> otherwise, also when \<^verbatim>\<open>sort\<close> is absent; it is never the text
  \<^verbatim>\<open>"false"\<close>.
\<close>

theorem search_descending_serialization:
  assumes "req \<in> set (snd (search E cls config))"
  shows "map_of (params req) ''descending'' =
           Some (Plain (if truthy (opt_chain (opt_chain config ''sort'') ''descending'')
                        then JStr ''true'' else JBool False))
       \<and> map_of (params req) ''descending'' \<noteq> Some (Plain (JStr ''false''))
       \<and> (\<not> truthy (opt_chain config ''sort'') \<longrightarrow>
            map_of (params req) ''descending'' = Some (Plain (JBool False)))"
proof -
  have "map_of (params req) ''descending'' =
           Some (Plain (if truthy (opt_chain (opt_chain config ''sort'') ''descending'')
                        then JStr ''true'' else JBool False))"
    using search_params_lookup(1) [OF search_log(1) [OF assms]]
    by (simp only: opt_chain_default)
  moreover have "\<not> truthy (opt_chain config ''sort'') \<Longrightarrow>
      \<not> truthy (opt_chain (opt_chain config ''sort'') ''descending'')"
    by (cases "opt_chain config ''sort''") (simp_all add: opt_chain_def)
  ultimately show ?thesis by auto
qed

theorem search_descending_serialization_witness:
  "\<exists>req. snd (search (answering two_pages) ''task''
               (JObj [(''constraints'',
                         JArr [JObj [(''key'', JStr ''status''),
                                     (''constraint_type'', JStr ''equals''),
                                     (''value'', JStr ''open'')]]),
                      (''sort'', JObj [(''sort_field'', JStr ''createdAt''),
                                       (''descending'', JBool True)])])) = [req]
        \<and> map_of (params req) ''descending'' = Some (Plain (JStr ''true''))"
proof -
  let ?config = "JObj [(''constraints'',
                         JArr [JObj [(''key'', JStr ''status''),
                                     (''constraint_type'', JStr ''equals''),
                                     (''value'', JStr ''open'')]]),
                      (''sort'', JObj [(''sort_field'', JStr ''createdAt''),
                                       (''descending'', JBool True)])]"
  obtain req where log: "snd (search (answering two_pages) ''task'' ?config) = [req]"
    by (simp add: search_def answering_def destructure_new destructure_def objectUrl_def get_headers_def
        search_params_def two_pages_def page_body_def opt_chain_def Let_def)
  then have "req \<in> set (snd (search (answering two_pages) ''task'' ?config))" by simp
  from search_descending_serialization [OF this] log show ?thesis
    by (simp add: opt_chain_def)
qed

section \<open>The target of every request\<close>

lemma getByID_log:
  assumes "BubbleConfig_get E = Inr c"
  shows "\<exists>req. snd (getByID E cls i) = [req] \<and> meth req = GET
             \<and> url req = spec_url c cls @ ''/'' @ i \<and> headers req = spec_headers c"
  by (simp add: getByID_def destructure_new destructure_spec [OF assms] Let_def
      split: sum.splits)

lemma create_log:
  assumes "BubbleConfig_get E = Inr c"
  shows "\<exists>req. snd (create E cls d) = [req] \<and> meth req = POST
             \<and> url req = spec_url c cls @ ''/'' \<and> headers req = spec_headers c"
  by (simp add: create_def destructure_new destructure_spec [OF assms] Let_def
      split: sum.splits)

lemma search_params_defined:
  "config \<noteq> JUndefined \<Longrightarrow> config \<noteq> JNull \<Longrightarrow> \<exists>ps. search_params config = Inr ps"
  by (cases config) (simp_all add: search_params_def)

lemma search_log_exists:
  assumes "BubbleConfig_get E = Inr c" and "config \<noteq> JNull"
  shows "\<exists>req. snd (search E cls config) = [req] \<and> meth req = GET
             \<and> url req = spec_url c cls \<and> headers req = spec_headers c"
proof -
  have "\<exists>ps. search_params (if config = JUndefined then JObj [] else config) = Inr ps"
  proof (cases "config = JUndefined")
    case True
    then show ?thesis by (simp add: search_params_def)
  next
    case False
    with assms(2) show ?thesis by (simp add: search_params_defined)
  qed
  then obtain ps where
    "search_params (if config = JUndefined then JObj [] else config) = Inr ps" ..
  then show ?thesis
    by (simp add: search_def destructure_new destructure_spec [OF assms(1)] Let_def
        split: sum.splits)
qed

lemma getAll_loop_nonempty:
  assumes "getAll_loop E cls config k acc log = Some out"
  shows "(\<forall>j. snd (search E cls (with_cursor config j)) \<noteq> []) \<longrightarrow> snd out \<noteq> []"
proof (rule getAll_loop.raw_induct [where
      P = "\<lambda>E cls config k acc log out.
             (\<forall>j. snd (search E cls (with_cursor config j)) \<noteq> []) \<longrightarrow> snd out \<noteq> []",
      OF _ assms], goal_cases)
  case (1 loop E cls config cursor results log out)
  show ?case
  proof (intro impI)
    assume new: "\<forall>j. snd (search E cls (with_cursor config j)) \<noteq> []"
    obtain res reqs where s: "search E cls (with_cursor config cursor) = (res, reqs)"
      by (cases "search E cls (with_cursor config cursor)") auto
    with new have "reqs \<noteq> []" by (metis snd_conv)
    with "1"(2) [unfolded s] show "snd out \<noteq> []"
      using "1"(1) new
      by (auto split: sum.splits if_splits)
  qed
qed

text \<open>
  C7: for every configuration and every type name, each operation sends its request to
  the collection URL \<^verbatim>\<open>https://{app}.bubbleapps.io\<close>, then \<^verbatim>\<open>/{appVersion}\<close> exactly when a
  version label is set, then \<^verbatim>\<open>/api/1.1/obj/{typeName}\<close> (followed by the operation's own
  suffix: \<^verbatim>\<open>/{id}\<close> for \<^verbatim>\<open>getByID\<close> and \<^verbatim>\<open>save\<close>, \<^verbatim>\<open>/\<close> for \<^verbatim>\<open>create\<close>, none for \<^verbatim>\<open>search\<close>,
  \<^verbatim>\<open>getOne\<close> and \<^verbatim>\<open>getAll\<close>), and every request carries the header
  \<^verbatim>\<open>Authorization: Bearer {apiKey}\<close>. The request exists: \<^verbatim>\<open>getByID\<close> and \<^verbatim>\<open>create\<close> issue
  exactly one, \<^verbatim>\<open>search\<close> and \<^verbatim>\<open>getOne\<close> exactly one unless their configuration is \<^verbatim>\<open>null\<close>,
  \<^verbatim>\<open>getAll\<close> at least one where it returns, and \<^verbatim>\<open>save\<close> exactly one for an instance with a
  non-empty identifier.
\<close>

theorem target_url_and_authorization:
  assumes "BubbleConfig_get E = Inr c"
  shows "objectUrl E this = Inr (spec_url c (type_name this))
       \<and> get_headers E = Inr (spec_headers c)
       \<and> (\<exists>req. snd (getByID E cls i) = [req] \<and> meth req = GET
              \<and> url req = spec_url c cls @ ''/'' @ i \<and> headers req = spec_headers c)
       \<and> (\<exists>req. snd (create E cls d) = [req] \<and> meth req = POST
              \<and> url req = spec_url c cls @ ''/'' \<and> headers req = spec_headers c)
       \<and> (config \<noteq> JNull \<longrightarrow>
            (\<exists>req. snd (search E cls config) = [req] \<and> meth req = GET
               \<and> url req = spec_url c cls \<and> headers req = spec_headers c))
       \<and> (config \<noteq> JNull \<longrightarrow>
            (\<exists>req. snd (getOne E cls config) = [req] \<and> meth req = GET
               \<and> url req = spec_url c cls \<and> headers req = spec_headers c))
       \<and> (\<forall>out. getAll E cls config = Some out \<longrightarrow>
             snd out \<noteq> []
             \<and> (\<forall>r\<in>set (snd out). meth r = GET \<and> url r = spec_url c cls
                                    \<and> headers r = spec_headers c))
       \<and> (\<forall>s. this_id this = JStr s \<and> s \<noteq> [] \<longrightarrow>
            (\<exists>req. snd (save E this) = [req] \<and> meth req = PATCH
               \<and> url req = spec_url c (type_name this) @ ''/'' @ s
               \<and> headers req = spec_headers c))
       \<and> (\<forall>r\<in>set (snd (save E this)).
             (\<exists>s. to_string (number_text E) (this_id this) = Inr s
                  \<and> url r = spec_url c (type_name this) @ ''/'' @ s)
             \<and> headers r = spec_headers c)"
proof -
  have 1: "objectUrl E this = Inr (spec_url c (type_name this))"
    using assms by (simp add: objectUrl_def spec_url_def split: option.splits)
  have 2: "get_headers E = Inr (spec_headers c)"
    using assms by (simp add: get_headers_def spec_headers_def)
  have 5: "config \<noteq> JNull \<longrightarrow>
            (\<exists>req. snd (search E cls config) = [req] \<and> meth req = GET
               \<and> url req = spec_url c cls \<and> headers req = spec_headers c)"
    using search_log_exists [OF assms] by blast
  have 7: "\<forall>out. getAll E cls config = Some out \<longrightarrow>
             snd out \<noteq> []
             \<and> (\<forall>r\<in>set (snd out). meth r = GET \<and> url r = spec_url c cls
                                    \<and> headers r = spec_headers c)"
  proof (intro allI impI)
    fix out assume "getAll E cls config = Some out"
    then have loop: "getAll_loop E cls config 0 [] [] = Some out" by (simp add: getAll_def)
    have each: "\<exists>req. snd (search E cls (with_cursor config j)) = [req] \<and> meth req = GET
               \<and> url req = spec_url c cls \<and> headers req = spec_headers c" for j
      by (rule search_log_exists [OF assms]) (simp add: with_cursor_def)
    have ne: "\<forall>j. snd (search E cls (with_cursor config j)) \<noteq> []"
    proof
      fix j
      from each [of j] obtain req where "snd (search E cls (with_cursor config j)) = [req]"
        by blast
      then show "snd (search E cls (with_cursor config j)) \<noteq> []" by simp
    qed
    have all: "\<forall>j. \<forall>r\<in>set (snd (search E cls (with_cursor config j))).
        meth r = GET \<and> url r = spec_url c cls \<and> headers r = spec_headers c"
    proof
      fix j
      from each [of j] obtain req where
        "snd (search E cls (with_cursor config j)) = [req]" and "meth req = GET"
        and "url req = spec_url c cls" and "headers req = spec_headers c"
        by blast
      then show "\<forall>r\<in>set (snd (search E cls (with_cursor config j))).
          meth r = GET \<and> url r = spec_url c cls \<and> headers r = spec_headers c"
        by simp
    qed
    from getAll_loop_nonempty [OF loop] ne
      getAll_loop_requests [OF loop,
        of "\<lambda>r. meth r = GET \<and> url r = spec_url c cls \<and> headers r = spec_headers c"] all
    show "snd out \<noteq> []
             \<and> (\<forall>r\<in>set (snd out). meth r = GET \<and> url r = spec_url c cls
                                    \<and> headers r = spec_headers c)"
      by simp
  qed
  have 8: "\<forall>s. this_id this = JStr s \<and> s \<noteq> [] \<longrightarrow>
            (\<exists>req. snd (save E this) = [req] \<and> meth req = PATCH
               \<and> url req = spec_url c (type_name this) @ ''/'' @ s
               \<and> headers req = spec_headers c)"
    by (simp add: save_def destructure_spec [OF assms] Let_def split: sum.splits)
  show ?thesis
    using 1 2 5 7 8 getByID_log [OF assms] create_log [OF assms] save_requests [OF assms]
    by (simp only: getOne_log) blast
qed

theorem target_url_and_authorization_witness:
  "objectUrl (answering two_pages) \<lparr>type_name = ''task'', props = []\<rparr> =
     Inr ''https://shop.bubbleapps.io/version-test/api/1.1/obj/task''
   \<and> get_headers (answering two_pages) = Inr [(''Authorization'', ''Bearer k1'')]
   \<and> objectUrl \<lparr>BubbleConfig_get = Inr \<lparr>app = ''shop'', appVersion = None, apiKey = ''k2''\<rparr>,
                  axios = two_pages, number_text = (\<lambda>n. []), text_le_zero = (\<lambda>s. False)\<rparr>
         \<lparr>type_name = ''task'', props = []\<rparr> =
     Inr ''https://shop.bubbleapps.io/api/1.1/obj/task''
   \<and> (\<exists>req. snd (getByID (answering two_pages) ''task'' ''1700x1'') = [req]
          \<and> meth req = GET
          \<and> url req = ''https://shop.bubbleapps.io/version-test/api/1.1/obj/task/1700x1''
          \<and> headers req = [(''Authorization'', ''Bearer k1'')])
   \<and> (\<exists>req. snd (create (answering two_pages) ''task'' (JObj [(''title'', JStr ''t'')])) = [req]
          \<and> meth req = POST
          \<and> url req = ''https://shop.bubbleapps.io/version-test/api/1.1/obj/task/''
          \<and> headers req = [(''Authorization'', ''Bearer k1'')])
   \<and> (\<exists>req. snd (search (answering two_pages) ''task'' (JObj [])) = [req]
          \<and> meth req = GET
          \<and> url req = ''https://shop.bubbleapps.io/version-test/api/1.1/obj/task''
          \<and> headers req = [(''Authorization'', ''Bearer k1'')])
   \<and> (\<exists>req. snd (getOne (answering two_pages) ''task'' JUndefined) = [req]
          \<and> meth req = GET
          \<and> url req = ''https://shop.bubbleapps.io/version-test/api/1.1/obj/task''
          \<and> headers req = [(''Authorization'', ''Bearer k1'')])
   \<and> (\<exists>req. snd (save (answering two_pages)
                     \<lparr>type_name = ''task'', props = [(''_id'', JStr ''1700x1'')]\<rparr>) = [req]
          \<and> meth req = PATCH
          \<and> url req = ''https://shop.bubbleapps.io/version-test/api/1.1/obj/task/1700x1''
          \<and> headers req = [(''Authorization'', ''Bearer k1'')])"
proof -
  have 1: "BubbleConfig_get (answering two_pages) = Inr example_config"
    by (simp add: answering_def)
  have 2: "BubbleConfig_get
        \<lparr>BubbleConfig_get = Inr \<lparr>app = ''shop'', appVersion = None, apiKey = ''k2''\<rparr>,
         axios = two_pages, number_text = (\<lambda>n. []), text_le_zero = (\<lambda>s. False)\<rparr> =
      Inr \<lparr>app = ''shop'', appVersion = None, apiKey = ''k2''\<rparr>"
    by simp
  have u: "spec_url example_config ''task'' =
      ''https://shop.bubbleapps.io/version-test/api/1.1/obj/task''"
    and h: "spec_headers example_config = [(''Authorization'', ''Bearer k1'')]"
    and u2: "spec_url \<lparr>app = ''shop'', appVersion = None, apiKey = ''k2''\<rparr> ''task'' =
      ''https://shop.bubbleapps.io/api/1.1/obj/task''"
    by (simp_all add: spec_url_def spec_headers_def example_config_def)
  note main = target_url_and_authorization [OF 1,
      of "\<lparr>type_name = ''task'', props = [(''_id'', JStr ''1700x1'')]\<rparr>" "''task''" "''1700x1''"
         "JObj [(''title'', JStr ''t'')]"]
  from main [of "JObj []"] main [of JUndefined]
    target_url_and_authorization [OF 1, of "\<lparr>type_name = ''task'', props = []\<rparr>"]
    target_url_and_authorization [OF 2, of "\<lparr>type_name = ''task'', props = []\<rparr>"]
  show ?thesis
    by (simp add: u h u2 this_id_def)
qed

section \<open>save\<close>

text \<open>
  C4, as amended: for every record instance whose identifier is empty or missing
  (\<^verbatim>\<open>_id\<close> is falsy), \<^verbatim>\<open>save\<close> raises and issues no request, and what it raises is the
  precondition error whenever the configuration can be read; for an instance with a
  non-empty identifier, in a configured process, it issues one PATCH request to the
  collection URL with the identifier, and its outcome is the transport's: a failure is
  raised as it is, and any body, also an absent one, is accepted. The identifier is a
  text (\<^verbatim>\<open>_id: string\<close>); a truthy value of another kind takes the place of its text in the
  URL where it has one, and where it has none the conversion raises before any request.
\<close>

theorem save_precondition:
  "(\<not> truthy (this_id this) \<longrightarrow>
      snd (save E this) = [] \<and> isl (fst (save E this))
      \<and> (BubbleConfig_get E = Inr c \<longrightarrow>
           fst (save E this) =
             Inl (Error ''Cannot call save on a BubbleDataType without an _id value.'')))
   \<and> (\<forall>s. this_id this = JStr s \<and> s \<noteq> [] \<and> BubbleConfig_get E = Inr c \<longrightarrow>
        (\<exists>req. snd (save E this) = [req] \<and> meth req = PATCH
             \<and> url req = spec_url c (type_name this) @ ''/'' @ s
             \<and> fst (save E this) =
                 (case axios E req of Inl e \<Rightarrow> Inl e | Inr body \<Rightarrow> Inr ())))
   \<and> (truthy (this_id this) \<and> BubbleConfig_get E = Inr c \<longrightarrow>
        (case to_string (number_text E) (this_id this) of
           Inl e \<Rightarrow> save E this = (Inl e, [])
         | Inr s \<Rightarrow>
             (\<exists>req. snd (save E this) = [req] \<and> meth req = PATCH
                \<and> url req = spec_url c (type_name this) @ ''/'' @ s
                \<and> fst (save E this) =
                    (case axios E req of Inl e \<Rightarrow> Inl e | Inr body \<Rightarrow> Inr ()))))"
proof (intro conjI impI allI)
  assume "\<not> truthy (this_id this)"
  then show "snd (save E this) = []" and "isl (fst (save E this))"
    using destructure_cases [of E this] by (auto simp: save_def)
next
  assume "\<not> truthy (this_id this)" and "BubbleConfig_get E = Inr c"
  then show "fst (save E this) =
      Inl (Error ''Cannot call save on a BubbleDataType without an _id value.'')"
    by (simp add: save_def destructure_spec)
next
  fix s assume "this_id this = JStr s \<and> s \<noteq> [] \<and> BubbleConfig_get E = Inr c"
  then show "\<exists>req. snd (save E this) = [req] \<and> meth req = PATCH
             \<and> url req = spec_url c (type_name this) @ ''/'' @ s
             \<and> fst (save E this) =
                 (case axios E req of Inl e \<Rightarrow> Inl e | Inr body \<Rightarrow> Inr ())"
    by (simp add: save_def destructure_spec Let_def split: sum.splits)
next
  assume "truthy (this_id this) \<and> BubbleConfig_get E = Inr c"
  then show "case to_string (number_text E) (this_id this) of
           Inl e \<Rightarrow> save E this = (Inl e, [])
         | Inr s \<Rightarrow>
             (\<exists>req. snd (save E this) = [req] \<and> meth req = PATCH
                \<and> url req = spec_url c (type_name this) @ ''/'' @ s
                \<and> fst (save E this) =
                    (case axios E req of Inl e \<Rightarrow> Inl e | Inr body \<Rightarrow> Inr ()))"
    by (simp add: save_def destructure_spec Let_def split: sum.splits)
qed

theorem save_precondition_witness:
  "save (answering two_pages) \<lparr>type_name = ''task'', props = [(''title'', JStr ''t'')]\<rparr> =
     (Inl (Error ''Cannot call save on a BubbleDataType without an _id value.''), [])
   \<and> save (answering two_pages) \<lparr>type_name = ''task'', props = [(''_id'', JStr [])]\<rparr> =
     (Inl (Error ''Cannot call save on a BubbleDataType without an _id value.''), [])
   \<and> fst (save (answering (\<lambda>r. Inl (Thrown ''Request failed with status code 404'')))
            \<lparr>type_name = ''task'', props = [(''_id'', JStr ''1700x1'')]\<rparr>) =
     Inl (Thrown ''Request failed with status code 404'')
   \<and> fst (save (answering (\<lambda>r. Inr JUndefined))
            \<lparr>type_name = ''task'', props = [(''_id'', JStr ''1700x1'')]\<rparr>) = Inr ()"
proof -
  have c: "BubbleConfig_get (answering f) = Inr example_config" for f
    by (simp add: answering_def)
  have a: "axios (answering f) = f" for f
    by (simp add: answering_def)
  from save_precondition [of "\<lparr>type_name = ''task'', props = [(''title'', JStr ''t'')]\<rparr>"
      "answering two_pages" example_config]
    save_precondition [of "\<lparr>type_name = ''task'', props = [(''_id'', JStr [])]\<rparr>"
      "answering two_pages" example_config]
    save_precondition [of "\<lparr>type_name = ''task'', props = [(''_id'', JStr ''1700x1'')]\<rparr>"
      "answering (\<lambda>r. Inl (Thrown ''Request failed with status code 404''))" example_config]
    save_precondition [of "\<lparr>type_name = ''task'', props = [(''_id'', JStr ''1700x1'')]\<rparr>"
      "answering (\<lambda>r. Inr JUndefined)" example_config]
  show ?thesis
    by (auto simp: c a this_id_def prod_eq_iff)
qed

text \<open>
  C4 as it is worded, for every instance without an identifier, fails where the
  configuration cannot be read: there \<^verbatim>\<open>save\<close> raises the failure of the read, not the
  precondition error.
\<close>

theorem save_unconfigured_counterexample:
  "\<not> truthy (this_id \<lparr>type_name = ''task'', props = [(''title'', JStr ''t'')]\<rparr>)
   \<and> fst (save \<lparr>BubbleConfig_get = Inl (Thrown ''BubbleConfig has not been set''),
                 axios = two_pages, number_text = (\<lambda>n. []),
                 text_le_zero = (\<lambda>s. False)\<rparr>
               \<lparr>type_name = ''task'', props = [(''title'', JStr ''t'')]\<rparr>) \<noteq>
       Inl (Error ''Cannot call save on a BubbleDataType without an _id value.'')"
  by (simp add: this_id_def save_def destructure_new destructure_def objectUrl_def)

text \<open>
  C9: \<^verbatim>\<open>save\<close> reads the configuration, for the URL and the authorization header, before
  it checks the identifier: when reading the configuration fails, \<^verbatim>\<open>save\<close> raises that
  failure and issues no request, whatever the instance, so also for an instance lacking
  an identifier, where the precondition error is not reached.
\<close>

theorem save_reads_configuration_first:
  assumes "BubbleConfig_get E = Inl e"
  shows "save E this = (Inl e, [])"
  using assms by (simp add: save_def destructure_unreadable)

theorem save_reads_configuration_first_witness:
  "\<not> truthy (this_id \<lparr>type_name = ''task'', props = []\<rparr>)
   \<and> save \<lparr>BubbleConfig_get = Inl (Thrown ''BubbleConfig has not been set''),
            axios = two_pages, number_text = (\<lambda>n. []), text_le_zero = (\<lambda>s. False)\<rparr>
          \<lparr>type_name = ''task'', props = []\<rparr> =
       (Inl (Thrown ''BubbleConfig has not been set''), [])"
proof -
  have "BubbleConfig_get \<lparr>BubbleConfig_get = Inl (Thrown ''BubbleConfig has not been set''),
            axios = two_pages, number_text = (\<lambda>n. []), text_le_zero = (\<lambda>s. False)\<rparr> =
          Inl (Thrown ''BubbleConfig has not been set'')"
    by simp
  from save_reads_configuration_first [OF this] show ?thesis
    by (simp add: this_id_def)
qed

section \<open>getByID\<close>

text \<open>
  The constructor raises where the \<^verbatim>\<open>response\<close> names one of the getters of the class, and
  gives \<^verbatim>\<open>type\<close> the value of the class.
\<close>

lemma new_this_getter_only:
  "new_this ''task'' (JObj [(''_id'', JStr ''1700x1''), (''headers'', JStr ''h'')]) =
     Inl (TypeError ''headers'')"
  by (simp add: new_this_def)

lemma new_this_type_field:
  "new_this ''task'' (JObj [(''type'', JStr ''x''), (''_id'', JStr ''1700x1'')]) =
     Inr (\<lparr>type_name = ''task'',
           props = [(''type'', JStr ''task''), (''_id'', JStr ''1700x1'')]\<rparr>, None)"
  by (simp add: new_this_def)

text \<open>
  C10: \<^verbatim>\<open>getByID\<close> checks only that the response has a body, not that the body holds
  the \<^verbatim>\<open>response\<close> field: for every response whose body is present but lacks that field,
  the result is an instance of the class constructed from no fields, with no property
  of its own but the \<^verbatim>\<open>type\<close> of the class, and not an error.
\<close>

theorem getByID_body_without_response:
  assumes "req \<in> set (snd (getByID E cls i))" and "axios E req = Inr body"
    and "truthy body" and "get_prop body ''response'' = Inr JUndefined"
  shows "fst (getByID E cls i) = Inr (\<lparr>type_name = cls, props = []\<rparr>, None)"
proof -
  from destructure_cases [of E "\<lparr>type_name = cls, props = []\<rparr>"] show ?thesis
  proof (elim disjE exE conjE)
    fix e assume "destructure E \<lparr>type_name = cls, props = []\<rparr> = Inl e"
    with assms(1) show ?thesis by (simp add: getByID_def destructure_new)
  next
    fix c u h assume d: "destructure E \<lparr>type_name = cls, props = []\<rparr> = Inr (u, h)"
    let ?r = "\<lparr>meth = GET, url = u @ ''/'' @ i, headers = h, params = [], payload = None\<rparr>"
    have "snd (getByID E cls i) = [?r]"
      using d by (simp add: getByID_def destructure_new Let_def split: sum.splits)
    with assms(1) have "req = ?r" by simp
    with assms(2) have ax: "axios E ?r = Inr body" by simp
    show ?thesis
      using d ax assms(3,4) by (simp add: getByID_def destructure_new new_this_undefined)
  qed
qed

theorem getByID_body_without_response_witness:
  "fst (getByID (answering (\<lambda>r. Inr (JObj [(''statusCode'', JNum 200)]))) ''task'' ''1700x1'') =
     Inr (\<lparr>type_name = ''task'', props = []\<rparr>, None)
   \<and> fst (getByID (answering (\<lambda>r. Inr (JStr ''OK''))) ''task'' ''1700x1'') =
     Inr (\<lparr>type_name = ''task'', props = []\<rparr>, None)"
proof -
  have log: "\<exists>req. snd (getByID (answering (\<lambda>r. Inr body)) ''task'' ''1700x1'') = [req]" for body
    by (simp add: getByID_def answering_def destructure_new destructure_def objectUrl_def
        get_headers_def Let_def split: sum.splits)
  from log [of "JObj [(''statusCode'', JNum 200)]"] obtain r1 where
    "r1 \<in> set (snd (getByID (answering (\<lambda>r. Inr (JObj [(''statusCode'', JNum 200)])))
                    ''task'' ''1700x1''))" by auto
  moreover from log [of "JStr ''OK''"] obtain r2 where
    "r2 \<in> set (snd (getByID (answering (\<lambda>r. Inr (JStr ''OK''))) ''task'' ''1700x1''))" by auto
  moreover have "axios (answering (\<lambda>r. Inr body)) req = Inr body" for body req
    by (simp add: answering_def)
  ultimately show ?thesis
    using getByID_body_without_response [of r1 "answering (\<lambda>r. Inr (JObj [(''statusCode'', JNum 200)]))"
        "''task''" "''1700x1''" "JObj [(''statusCode'', JNum 200)]"]
      getByID_body_without_response [of r2 "answering (\<lambda>r. Inr (JStr ''OK''))"
        "''task''" "''1700x1''" "JStr ''OK''"]
    by simp
qed

end
